theory Spec2Isabelle
  imports Main "HOL-Library.Word"
begin

section \<open>The enclave client of krd (krd, enclave client)\<close>

text \<open>
  A shallow embedding of \<^verbatim>\<open>src/krd/enclave_client.go\<close>. Every method of
  \<^verbatim>\<open>EnclaveClient\<close> becomes a function on an explicit world state: the
  fields of the struct, the heap of response channels, the wall clock and the trace of
  calls made to the collaborators. A Go function either returns, panics (a nil
  dereference) or blocks for ever; the three are the constructors of \<open>outcome\<close>.

  The package \<^verbatim>\<open>kr\<close> (pairing secret, requests, responses, persistence), the
  bluetooth driver, \<^verbatim>\<open>encoding/json\<close> and the LRU cache are not part of the
  file. Their operations are parameters of the model (the record \<open>kr\<close>), so every
  theorem holds for any behaviour of theirs.
\<close>

subsection \<open>Data\<close>

type_synonym bytes = "8 word list"
type_synonym chan = nat
type_synonym uuid = string
type_synonym driver = nat
type_synonym Profile = string

text \<open>
  Go's \<^verbatim>\<open>error\<close> values. \<^verbatim>\<open>ErrTimeout\<close> and \<^verbatim>\<open>kr.ErrWaitingForKey\<close>
  are package variables compared by identity; \<^verbatim>\<open>errors.New\<close> makes the others.
  The four wrappers are the error structs of lines 19 to 53.
\<close>

datatype err =
    ErrTimeout
  | ErrWaitingForKey
  | ErrorsNew string
  | SendQueued err
  | SendError err
  | RecvError err
  | ProtoError err

text \<open>
  Modelled from the spec: the envelopes \<^verbatim>\<open>kr.Request\<close> and \<^verbatim>\<open>kr.Response\<close>
  (declared in package kr, not under src/). Each carries a request identifier and at
  most one populated payload; a response may carry an endpoint identifier update. The
  fields are the ones the client reads and writes; the payloads stay opaque.
\<close>

record Request =
  RequestID :: string
  MeRequest :: "unit option"
  SignRequest :: "bytes option"
  ListRequest :: "bytes option"

record MeResponse =
  Me :: Profile

record Response =
  ResponseRequestID :: string
  MeResponse :: "MeResponse option"
  SignResponse :: "bytes option"
  ListResponse :: "bytes option"
  SNSEndpointARN :: "string option"

text \<open>
  Modelled from the spec: the Correlator's store, \<^verbatim>\<open>lru.Cache\<close> of
  github.com/golang/groupcache (not under src/): a bounded map with
  least-recently-used eviction. The list \<open>ll\<close> holds the entries, most recently used
  first. \<^verbatim>\<open>Add\<close> of a present key moves it to the front and replaces its value,
  \<^verbatim>\<open>Add\<close> of a new key pushes it to the front and drops the oldest entry when
  the length exceeds \<open>MaxEntries\<close>; \<^verbatim>\<open>Get\<close> moves a hit to the front;
  \<^verbatim>\<open>Remove\<close> deletes the entry of the key.
\<close>

record Cache =
  MaxEntries :: nat
  ll :: "(string \<times> chan) list"

definition lru_New :: "nat \<Rightarrow> Cache" where
  "lru_New n = \<lparr>MaxEntries = n, ll = []\<rparr>"

definition lru_Add :: "Cache \<Rightarrow> string \<Rightarrow> chan \<Rightarrow> Cache" where
  "lru_Add c k v =
     (case map_of (ll c) k of
        Some _ \<Rightarrow> c\<lparr>ll := (k, v) # filter (\<lambda>e. fst e \<noteq> k) (ll c)\<rparr>
      | None \<Rightarrow>
          (if MaxEntries c \<noteq> 0 \<and> length ((k, v) # ll c) > MaxEntries c
           then c\<lparr>ll := butlast ((k, v) # ll c)\<rparr>
           else c\<lparr>ll := (k, v) # ll c\<rparr>))"

definition lru_Get :: "Cache \<Rightarrow> string \<Rightarrow> Cache \<times> chan option" where
  "lru_Get c k =
     (case map_of (ll c) k of
        Some v \<Rightarrow> (c\<lparr>ll := (k, v) # filter (\<lambda>e. fst e \<noteq> k) (ll c)\<rparr>, Some v)
      | None \<Rightarrow> (c, None))"

definition lru_Remove :: "Cache \<Rightarrow> string \<Rightarrow> Cache" where
  "lru_Remove c k = c\<lparr>ll := filter (\<lambda>e. fst e \<noteq> k) (ll c)\<rparr>"

text \<open>Each identifier has at most one entry, hence at most one channel.\<close>

definition lru_inv :: "Cache \<Rightarrow> bool" where
  "lru_inv c = distinct (map fst (ll c))"

subsection \<open>The collaborators\<close>

text \<open>
  The operations of package kr, of the bluetooth driver and of encoding/json that the
  client calls, as parameters. A Go result \<^verbatim>\<open>(x, err)\<close> whose value is only read
  when \<^verbatim>\<open>err\<close> is nil is a sum (\<open>Inl\<close> the error); the others are tuples.
  Methods with a pointer receiver that change the secret return the new secret.
  \<open>UnwrapKeyIfPresent_nil\<close> is the same method called on a nil receiver: \<open>None\<close>
  when its body dereferences the receiver (a panic), its results otherwise.
\<close>

record 'ps kr =
  LoadPairing :: "'ps option \<times> err option"
  GeneratePairingSecretAndCreateQueues :: "err + 'ps"
  SavePairing :: "'ps \<Rightarrow> err option"
  NewRequest :: "err + Request"
  DeriveUUID :: "'ps \<Rightarrow> err + uuid"
  EncryptMessage :: "'ps \<Rightarrow> bytes \<Rightarrow> err + bytes"
  DecryptMessage :: "'ps \<Rightarrow> bytes \<Rightarrow> bytes option \<times> err option"
  UnwrapKeyIfPresent :: "'ps \<Rightarrow> bytes \<Rightarrow> 'ps \<times> bytes option \<times> bool \<times> err option"
  UnwrapKeyIfPresent_nil :: "bytes \<Rightarrow> (bytes option \<times> bool \<times> err option) option"
  SendMessage :: "'ps \<Rightarrow> bytes \<Rightarrow> err option"
  SetSNSEndpointARN :: "'ps \<Rightarrow> string \<Rightarrow> 'ps"
  NewBluetoothDriver :: "err + driver"
  AddService :: "driver \<Rightarrow> uuid \<Rightarrow> err option"
  RemoveService :: "driver \<Rightarrow> uuid \<Rightarrow> err option"
  Write :: "driver \<Rightarrow> bytes \<Rightarrow> err option"
  Marshal :: "Request \<Rightarrow> err + bytes"
  Unmarshal :: "bytes \<Rightarrow> err + Response"

subsection \<open>The state\<close>

datatype level = Error | Notice | Info

text \<open>What the client does to the outside, in order.\<close>

datatype 'ps event =
    Logged level string "err option"
  | EvDeletePairing
  | EvSavePairing 'ps
  | EvUnwrapKeyIfPresent "'ps option" bytes
  | EvSendMessage 'ps bytes
  | EvReadQueue
  | EvBtWrite driver bytes
  | EvAddService driver uuid
  | EvRemoveService driver uuid

text \<open>
  The struct of lines 66 to 74. A nil pointer or nil interface is \<open>None\<close>. The secret
  is reached through the pointer \<^verbatim>\<open>ec.pairingSecret\<close> only, so the pointee is kept
  in the field: a method that changes the secret through a copy of the pointer changes
  the field.
\<close>

record 'ps EnclaveClient =
  pairingSecret :: "'ps option"
  requestCallbacksByRequestID :: Cache
  outgoingQueue :: "bytes list"
  snsEndpointARN :: "string option"
  cachedMe :: "Profile option"
  bt :: "driver option"

text \<open>
  The world: the client, the channels made so far (a buffered channel of capacity 1 is
  the list of the values sent and not yet received, each with the time it was sent),
  the trace and the clock in nanoseconds.
\<close>

record 'ps world = "'ps EnclaveClient" +
  chans :: "(Response option \<times> nat) list list"
  trace :: "'ps event list"
  now :: nat

datatype ('w, 'a) outcome = Returns 'w 'a | Panics 'w | Blocks 'w

fun world_of :: "('w, 'a) outcome \<Rightarrow> 'w" where
  "world_of (Returns w a) = w"
| "world_of (Panics w) = w"
| "world_of (Blocks w) = w"

fun andThen :: "('w, 'a) outcome \<Rightarrow> ('w \<Rightarrow> 'a \<Rightarrow> ('w, 'b) outcome) \<Rightarrow> ('w, 'b) outcome" where
  "andThen (Returns w a) f = f w a"
| "andThen (Panics w) f = Panics w"
| "andThen (Blocks w) f = Blocks w"

definition Second :: nat where
  "Second = 1000000000"

definition emit :: "'ps event \<Rightarrow> 'ps world \<Rightarrow> 'ps world" where
  "emit e w = w\<lparr>trace := trace w @ [e]\<rparr>"

definition log_msg :: "level \<Rightarrow> string \<Rightarrow> err option \<Rightarrow> 'ps world \<Rightarrow> 'ps world" where
  "log_msg l s e w = emit (Logged l s e) w"

text \<open>\<^verbatim>\<open>if err != nil { log.Error(s, err) }\<close>\<close>

fun log_if :: "string \<Rightarrow> err option \<Rightarrow> 'ps world \<Rightarrow> 'ps world" where
  "log_if s None w = w"
| "log_if s (Some e) w = log_msg Error s (Some e) w"

text \<open>\<^verbatim>\<open>make(chan *kr.Response, 1)\<close>\<close>

definition make_chan :: "'ps world \<Rightarrow> chan \<times> 'ps world" where
  "make_chan w = (length (chans w), w\<lparr>chans := chans w @ [[]]\<rparr>)"

text \<open>
  \<^verbatim>\<open>cb <- v\<close>: the value enters the buffer when it has room. With the buffer full
  and nobody receiving, the send blocks (\<open>None\<close>).
\<close>

definition chan_buf :: "'ps world \<Rightarrow> chan \<Rightarrow> (Response option \<times> nat) list" where
  "chan_buf w c = (if c < length (chans w) then chans w ! c else [])"

definition chan_send :: "'ps world \<Rightarrow> chan \<Rightarrow> Response option \<Rightarrow> 'ps world option" where
  "chan_send w c v =
     (if c < length (chans w) \<and> length (chan_buf w c) < 1
      then Some (w\<lparr>chans := (chans w)[c := chan_buf w c @ [(v, now w)]]\<rparr>)
      else None)"

text \<open>\<^verbatim>\<open>UnpairedEnclaveClient()\<close>, in a world with no channel, no trace, at time 0.\<close>

definition UnpairedEnclaveClient :: "'ps world" where
  "UnpairedEnclaveClient =
     \<lparr>pairingSecret = None, requestCallbacksByRequestID = lru_New 128, outgoingQueue = [],
      snsEndpointARN = None, cachedMe = None, bt = None,
      chans = [], trace = [], now = 0\<rparr>"

subsection \<open>Pairing\<close>

text \<open>Lines 119 to 132. The result \<^verbatim>\<open>err\<close> is never set, so only the world is returned.\<close>

definition deactivatePairing :: "'ps kr \<Rightarrow> 'ps world \<Rightarrow> 'ps world" where
  "deactivatePairing env w =
     (case bt w of
        None \<Rightarrow> w
      | Some d \<Rightarrow>
          (case pairingSecret w of
             None \<Rightarrow> w
           | Some ps \<Rightarrow>
               (case DeriveUUID env ps of
                  Inl uuidErr \<Rightarrow> w
                | Inr oldBtUUID \<Rightarrow>
                    log_if ''error removing bluetooth service:'' (RemoveService env d oldBtUUID)
                      (emit (EvRemoveService d oldBtUUID) w))))"

text \<open>Lines 134 to 151.\<close>

definition activatePairing :: "'ps kr \<Rightarrow> 'ps world \<Rightarrow> 'ps world \<times> err option" where
  "activatePairing env w =
     (case bt w of
        None \<Rightarrow> (w, None)
      | Some d \<Rightarrow>
          (case pairingSecret w of
             None \<Rightarrow> (w, None)
           | Some ps \<Rightarrow>
               (case DeriveUUID env ps of
                  Inl uuidErr \<Rightarrow> (log_msg Error [] (Some uuidErr) w, Some uuidErr)
                | Inr btUUID \<Rightarrow>
                    (let w1 = emit (EvAddService d btUUID) w;
                         e = AddService env d btUUID
                     in (log_if [] e w1, e)))))"

text \<open>Lines 98 to 117.\<close>

definition generatePairing :: "'ps kr \<Rightarrow> 'ps world \<Rightarrow> 'ps world \<times> err option" where
  "generatePairing env w =
     (let w1 = emit EvDeletePairing (deactivatePairing env w)
      in case GeneratePairingSecretAndCreateQueues env of
           Inl e \<Rightarrow> (log_msg Error [] (Some e) w1, Some e)
         | Inr ps \<Rightarrow>
             (let w2 = w1\<lparr>pairingSecret := Some ps, outgoingQueue := []\<rparr>;
                  w3 = emit (EvSavePairing ps) w2
              in (log_if ''error saving pairing:'' (SavePairing env ps) w3, None)))"

text \<open>
  Lines 76 to 88. The results of the three calls are dropped; the last statement
  dereferences \<^verbatim>\<open>ec.pairingSecret\<close>, which panics when the pointer is nil.
\<close>

definition Pair :: "'ps kr \<Rightarrow> 'ps world \<Rightarrow> ('ps world, 'ps \<times> err option) outcome" where
  "Pair env w =
     (let w1 = w\<lparr>cachedMe := None\<rparr>;
          w2 = deactivatePairing env w1;
          w3 = fst (generatePairing env w2);
          w4 = fst (activatePairing env w3)
      in case pairingSecret w4 of
           None \<Rightarrow> Panics w4
         | Some ps \<Rightarrow> Returns w4 (ps, None))"

text \<open>Lines 152 to 155.\<close>

definition Stop :: "'ps kr \<Rightarrow> 'ps world \<Rightarrow> 'ps world \<times> err option" where
  "Stop env w = (deactivatePairing env w, None)"

text \<open>Lines 198 to 203.\<close>

definition GetCachedMe :: "'ps world \<Rightarrow> Profile option" where
  "GetCachedMe w = cachedMe w"

subsection \<open>Sending\<close>

text \<open>
  Lines 407 to 440. After a successful encryption the bluetooth write runs in a
  goroutine of its own, \<^verbatim>\<open>go func() { client.bt.Write(ciphertext) ... }()\<close>. The
  model runs the goroutine where it is spawned. Calling \<^verbatim>\<open>Write\<close> on the nil
  interface \<^verbatim>\<open>client.bt\<close> is a nil dereference, and a panic in any goroutine ends
  the process: the outcome is \<open>Panics\<close>.
\<close>

definition sendMessage :: "'ps kr \<Rightarrow> 'ps world \<Rightarrow> bytes \<Rightarrow> ('ps world, err option) outcome" where
  "sendMessage env w message =
     (case pairingSecret w of
        None \<Rightarrow> Returns w (Some (ErrorsNew ''EnclaveClient pairing never initiated''))
      | Some ps \<Rightarrow>
          (case EncryptMessage env ps message of
             Inl e \<Rightarrow>
               (if e = ErrWaitingForKey
                then Returns
                       (if length (outgoingQueue w) < 128
                        then w\<lparr>outgoingQueue := outgoingQueue w @ [message]\<rparr>
                        else w)
                       (Some (SendQueued e))
                else Returns w (Some (SendError e)))
           | Inr ciphertext \<Rightarrow>
               (case bt w of
                  None \<Rightarrow> Panics w
                | Some d \<Rightarrow>
                    (let w1 = log_if ''error writing BT'' (Write env d ciphertext)
                                (emit (EvBtWrite d ciphertext) w);
                         w2 = emit (EvSendMessage ps message) w1
                     in case SendMessage env ps message of
                          None \<Rightarrow> Returns w2 None
                        | Some e \<Rightarrow> Returns w2 (Some (SendError e))))))"

subsection \<open>Receiving\<close>

text \<open>
  Lines 442 to 468. The result of \<^verbatim>\<open>kr.SavePairing\<close> is dropped. The send on the
  channel happens with the client locked; when the buffer is full it never completes.
\<close>

definition handleMessage :: "'ps kr \<Rightarrow> 'ps world \<Rightarrow> bytes \<Rightarrow> ('ps world, err option) outcome" where
  "handleMessage env w message =
     (case Unmarshal env message of
        Inl e \<Rightarrow> Returns w (Some e)
      | Inr response \<Rightarrow>
          (let w1 =
                 (case SNSEndpointARN response of
                    None \<Rightarrow> w
                  | Some arn \<Rightarrow>
                      (case pairingSecret w of
                         None \<Rightarrow> w
                       | Some ps \<Rightarrow>
                           emit (EvSavePairing (SetSNSEndpointARN env ps arn))
                             (w\<lparr>pairingSecret := Some (SetSNSEndpointARN env ps arn)\<rparr>)));
               got = lru_Get (requestCallbacksByRequestID w1) (ResponseRequestID response);
               w2 = w1\<lparr>requestCallbacksByRequestID := fst got\<rparr>
           in case snd got of
                Some requestCb \<Rightarrow>
                  (case chan_send (log_msg Info ''found callback for request'' None w2)
                          requestCb (Some response) of
                     None \<Rightarrow> Blocks (log_msg Info ''found callback for request'' None w2)
                   | Some w3 \<Rightarrow>
                       Returns
                         (w3\<lparr>requestCallbacksByRequestID :=
                               lru_Remove (requestCallbacksByRequestID w3)
                                 (ResponseRequestID response)\<rparr>)
                         None)
              | None \<Rightarrow>
                  (let w3 = log_msg Info ''callback not found for request'' None w2
                   in Returns
                        (w3\<lparr>requestCallbacksByRequestID :=
                              lru_Remove (requestCallbacksByRequestID w3)
                                (ResponseRequestID response)\<rparr>)
                        None)))"

text \<open>
  Lines 380 to 385: the queued messages are sent again in order. \<open>err\<close> is the
  function's result variable, assigned by every send.
\<close>

fun resend :: "'ps kr \<Rightarrow> 'ps world \<Rightarrow> err option \<Rightarrow> bytes list \<Rightarrow> ('ps world, err option) outcome" where
  "resend env w err [] = Returns w err"
| "resend env w err (queuedMessage # queue) =
     andThen (sendMessage env w queuedMessage)
       (\<lambda>w1 e. resend env (log_if ''error sending queued message:'' e w1) e queue)"

text \<open>
  Lines 358 to 405. \<^verbatim>\<open>UnwrapKeyIfPresent\<close> is called on the pointer before the
  pointer is compared with nil. The results of a call that returned are then thrown
  away in favour of the error of line 362.
\<close>

definition handleCiphertext :: "'ps kr \<Rightarrow> 'ps world \<Rightarrow> bytes \<Rightarrow> ('ps world, err option) outcome" where
  "handleCiphertext env w ciphertext =
     (case pairingSecret w of
        None \<Rightarrow>
          (case UnwrapKeyIfPresent_nil env ciphertext of
             None \<Rightarrow> Panics (emit (EvUnwrapKeyIfPresent None ciphertext) w)
           | Some r \<Rightarrow>
               Returns (emit (EvUnwrapKeyIfPresent None ciphertext) w)
                 (Some (ErrorsNew ''EnclaveClient pairing never initiated'')))
      | Some ps \<Rightarrow>
          (case UnwrapKeyIfPresent env ps ciphertext of
             (ps', unwrappedCiphertext, didUnwrapKey, uerr) \<Rightarrow>
               (let w0 = (emit (EvUnwrapKeyIfPresent (Some ps) ciphertext) w)
                           \<lparr>pairingSecret := Some ps'\<rparr>
                in case uerr of
                     Some e \<Rightarrow> Returns w0 (Some (ProtoError e))
                   | None \<Rightarrow>
                       andThen
                         (if didUnwrapKey
                          then resend env
                                 (log_if ''error saving pairing:'' (SavePairing env ps')
                                    (emit (EvSavePairing ps') (w0\<lparr>outgoingQueue := []\<rparr>)))
                                 None (outgoingQueue w0)
                          else Returns w0 None)
                         (\<lambda>w1 err.
                            case unwrappedCiphertext of
                              None \<Rightarrow> Returns w1 err
                            | Some uc \<Rightarrow>
                                (case DecryptMessage env ps' uc of
                                   (message, Some e) \<Rightarrow>
                                     Returns (log_msg Error ''decrypt error:'' (Some e) w1) (Some e)
                                 | (None, None) \<Rightarrow> Returns w1 None
                                 | (Some responseJson, None) \<Rightarrow>
                                     andThen (handleMessage env w1 responseJson)
                                       (\<lambda>w2 e. Returns (log_if ''handleMessage error:'' e w2) e))))))"

text \<open>
  Lines 177 to 179, the body of the goroutine that \<^verbatim>\<open>Start\<close> spawns: every
  ciphertext read from the bluetooth channel goes through \<open>handleCiphertext\<close>.
\<close>

fun btReader :: "'ps kr \<Rightarrow> 'ps world \<Rightarrow> bytes list \<Rightarrow> ('ps world, unit) outcome" where
  "btReader env w [] = Returns w ()"
| "btReader env w (ciphertext # readChan) =
     andThen (handleCiphertext env w ciphertext) (\<lambda>w1 e. btReader env w1 readChan)"

text \<open>
  Lines 325 to 332, the loop of the closure \<^verbatim>\<open>receive\<close>. The switch skips
  \<^verbatim>\<open>kr.ErrWaitingForKey\<close>; its default branch assigns every other result, nil
  included, to \<open>err\<close>.
\<close>

fun receive_loop :: "'ps kr \<Rightarrow> 'ps world \<Rightarrow> err option \<Rightarrow> bytes list \<Rightarrow> ('ps world, err option) outcome" where
  "receive_loop env w err [] = Returns w err"
| "receive_loop env w err (ctxt # ciphertexts) =
     andThen (handleCiphertext env w ctxt)
       (\<lambda>w1 ctxtErr.
          receive_loop env w1 (if ctxtErr = Some ErrWaitingForKey then err else ctxtErr)
            ciphertexts)"

text \<open>
  Lines 318 to 334. The argument is what \<^verbatim>\<open>pairingSecret.ReadQueue()\<close> returned.
  \<open>numReceived\<close> is never assigned: it is 0 in every result.
\<close>

definition receive :: "'ps kr \<Rightarrow> 'ps world \<Rightarrow> err + bytes list \<Rightarrow> ('ps world, nat \<times> err option) outcome" where
  "receive env w r =
     (case r of
        Inl e \<Rightarrow> Returns w (0, Some (RecvError e))
      | Inr ciphertexts \<Rightarrow>
          andThen (receive_loop env w None ciphertexts) (\<lambda>w1 err. Returns w1 (0, err)))"

text \<open>
  Lines 336 to 345. The script lists, for each call of \<^verbatim>\<open>ReadQueue\<close>, how long
  the call takes and what it returns; nothing else takes time. When the script is
  used up the next \<^verbatim>\<open>ReadQueue\<close> never returns.
\<close>

fun drain :: "'ps kr \<Rightarrow> 'ps world \<Rightarrow> Request \<Rightarrow> nat \<Rightarrow> (nat \<times> (err + bytes list)) list \<Rightarrow> ('ps world, unit) outcome" where
  "drain env w request timeoutAt [] = Blocks (emit EvReadQueue w)"
| "drain env w request timeoutAt ((d, r) # script) =
     andThen (receive env ((emit EvReadQueue w)\<lparr>now := now w + d\<rparr>) r)
       (\<lambda>w1 (n, err).
          let got = lru_Get (requestCallbacksByRequestID w1) (RequestID request);
              w2 = w1\<lparr>requestCallbacksByRequestID := fst got\<rparr>
          in if err \<noteq> None \<or> (n = 0 \<and> timeoutAt < now w2) \<or> snd got = None
             then Returns (log_if ''queue err:'' err w2) ()
             else drain env w2 request timeoutAt script)"

text \<open>Lines 346 to 353.\<close>

definition abandon :: "'ps world \<Rightarrow> Request \<Rightarrow> ('ps world, err option) outcome" where
  "abandon w request =
     (let got = lru_Get (requestCallbacksByRequestID w) (RequestID request);
          w1 = w\<lparr>requestCallbacksByRequestID := fst got\<rparr>
      in case snd got of
           None \<Rightarrow> Returns w1 None
         | Some cb \<Rightarrow>
             (case chan_send w1 cb None of
                None \<Rightarrow> Blocks w1
              | Some w2 \<Rightarrow>
                  Returns
                    (log_msg Error ''evicting request'' None
                       (w2\<lparr>requestCallbacksByRequestID :=
                             lru_Remove (requestCallbacksByRequestID w2) (RequestID request)\<rparr>))
                    None))"

text \<open>Lines 288 to 356.\<close>

definition sendRequestAndReceiveResponses ::
  "'ps kr \<Rightarrow> 'ps world \<Rightarrow> Request \<Rightarrow> chan \<Rightarrow> nat \<Rightarrow> (nat \<times> (err + bytes list)) list \<Rightarrow> ('ps world, err option) outcome" where
  "sendRequestAndReceiveResponses env w request cb timeout script =
     (case pairingSecret w of
        None \<Rightarrow> Returns w (Some (ErrorsNew ''EnclaveClient pairing never initiated''))
      | Some ps \<Rightarrow>
          (case Marshal env request of
             Inl e \<Rightarrow> Returns w (Some (ProtoError e))
           | Inr requestJson \<Rightarrow>
               andThen
                 (sendMessage env
                    (w\<lparr>requestCallbacksByRequestID :=
                         lru_Add (requestCallbacksByRequestID w) (RequestID request) cb\<rparr>)
                    requestJson)
                 (\<lambda>w1 err.
                    case err of
                      Some (SendQueued e) \<Rightarrow>
                        andThen
                          (drain env (log_msg Notice [] err w1) request (now w + timeout) script)
                          (\<lambda>w2 u. abandon w2 request)
                    | None \<Rightarrow>
                        andThen (drain env w1 request (now w + timeout) script)
                          (\<lambda>w2 u. abandon w2 request)
                    | Some e \<Rightarrow> Returns w1 (Some e))))"

subsection \<open>Requests\<close>

text \<open>
  Lines 278 to 282, the \<^verbatim>\<open>select\<close> of \<open>tryRequest\<close>, read once the worker has
  run: a value sent on \<open>cb\<close> no later than the deadline is received; otherwise the
  timer fires at the deadline.
\<close>

definition select_cb :: "'ps world \<Rightarrow> chan \<Rightarrow> nat \<Rightarrow> ('ps world, Response option \<times> err option) outcome" where
  "select_cb w cb deadline =
     (case chan_buf w cb of
        [] \<Rightarrow> Returns (w\<lparr>now := max (now w) deadline\<rparr>) (None, Some ErrTimeout)
      | (response, sent) # rest \<Rightarrow>
          (if sent \<le> deadline
           then Returns (w\<lparr>chans := (chans w)[cb := rest]\<rparr>) (response, None)
           else Returns (w\<lparr>now := max (now w) deadline\<rparr>) (None, Some ErrTimeout)))"

text \<open>
  Lines 270 to 284. The worker goroutine is run to its end (or to the point where it
  blocks) before the \<^verbatim>\<open>select\<close> is read; a panic of the worker ends the process.
  The error the worker returns is logged and goes nowhere else.
\<close>

definition tryRequest ::
  "'ps kr \<Rightarrow> 'ps world \<Rightarrow> Request \<Rightarrow> nat \<Rightarrow> (nat \<times> (err + bytes list)) list \<Rightarrow> ('ps world, Response option \<times> err option) outcome" where
  "tryRequest env w request timeout script =
     (case sendRequestAndReceiveResponses env (snd (make_chan w)) request (fst (make_chan w))
             timeout script of
        Panics w1 \<Rightarrow> Panics w1
      | Blocks w1 \<Rightarrow> select_cb w1 (fst (make_chan w)) (now w + timeout)
      | Returns w1 e \<Rightarrow>
          select_cb (log_if ''error sendRequestAndReceiveResponses: '' e w1)
            (fst (make_chan w)) (now w + timeout))"

text \<open>Lines 211 to 232.\<close>

definition RequestMe ::
  "'ps kr \<Rightarrow> 'ps world \<Rightarrow> (nat \<times> (err + bytes list)) list \<Rightarrow> ('ps world, MeResponse option \<times> err option) outcome" where
  "RequestMe env w script =
     (case NewRequest env of
        Inl e \<Rightarrow> Returns (log_msg Error [] (Some e) w) (None, Some e)
      | Inr meRequest \<Rightarrow>
          andThen (tryRequest env w (meRequest\<lparr>MeRequest := Some ()\<rparr>) (20 * Second) script)
            (\<lambda>w1 (response, err).
               case err of
                 Some e \<Rightarrow> Returns (log_msg Error [] (Some e) w1) (None, Some e)
               | None \<Rightarrow>
                   (case response of
                      None \<Rightarrow> Returns w1 (None, None)
                    | Some r \<Rightarrow>
                        (case MeResponse r of
                           None \<Rightarrow> Returns w1 (None, None)
                         | Some meResponse \<Rightarrow>
                             Returns (w1\<lparr>cachedMe := Some (Me meResponse)\<rparr>)
                               (Some meResponse, None)))))"

text \<open>Lines 233 to 251.\<close>

definition RequestSignature ::
  "'ps kr \<Rightarrow> 'ps world \<Rightarrow> bytes \<Rightarrow> (nat \<times> (err + bytes list)) list \<Rightarrow> ('ps world, bytes option \<times> err option) outcome" where
  "RequestSignature env w signRequest script =
     (case NewRequest env of
        Inl e \<Rightarrow> Returns (log_msg Error [] (Some e) w) (None, Some e)
      | Inr request \<Rightarrow>
          andThen (tryRequest env w (request\<lparr>SignRequest := Some signRequest\<rparr>) (15 * Second) script)
            (\<lambda>w1 (response, err).
               case err of
                 Some e \<Rightarrow> Returns (log_msg Error [] (Some e) w1) (None, Some e)
               | None \<Rightarrow>
                   (case response of
                      None \<Rightarrow> Returns w1 (None, None)
                    | Some r \<Rightarrow>
                        Returns (log_msg Notice ''successful signature took'' None w1)
                          (SignResponse r, None))))"

text \<open>Lines 252 to 268.\<close>

definition RequestList ::
  "'ps kr \<Rightarrow> 'ps world \<Rightarrow> bytes \<Rightarrow> (nat \<times> (err + bytes list)) list \<Rightarrow> ('ps world, bytes option \<times> err option) outcome" where
  "RequestList env w listRequest script =
     (case NewRequest env of
        Inl e \<Rightarrow> Returns (log_msg Error [] (Some e) w) (None, Some e)
      | Inr request \<Rightarrow>
          andThen (tryRequest env w (request\<lparr>ListRequest := Some listRequest\<rparr>) (5 * Second) script)
            (\<lambda>w1 (response, err).
               case err of
                 Some e \<Rightarrow> Returns (log_msg Error [] (Some e) w1) (None, Some e)
               | None \<Rightarrow>
                   (case response of
                      None \<Rightarrow> Returns w1 (None, None)
                    | Some r \<Rightarrow> Returns w1 (ListResponse r, None))))"

text \<open>
  Lines 157 to 189. \<^verbatim>\<open>bt, err := NewBluetoothDriver()\<close> assigns the function's
  result \<open>err\<close>: when the driver cannot be made, \<open>ec.bt\<close> stays nil and the error is
  what \<open>Start\<close> returns in the end. The reader goroutine (\<open>btReader\<close>) is spawned
  and handles what arrives later. The result of \<open>RequestMe\<close> is dropped.
\<close>

definition Start ::
  "'ps kr \<Rightarrow> 'ps world \<Rightarrow> (nat \<times> (err + bytes list)) list \<Rightarrow> ('ps world, err option) outcome" where
  "Start env w script =
     (let w1 = (case LoadPairing env of
                  (Some loadedPairing, None) \<Rightarrow> w\<lparr>pairingSecret := Some loadedPairing\<rparr>
                | (Some loadedPairing, Some loadErr) \<Rightarrow>
                    log_msg Notice ''pairing not loaded:'' (Some loadErr) w
                | (None, loadErr) \<Rightarrow> log_msg Notice ''pairing not loaded:'' loadErr w);
          w2 = (case NewBluetoothDriver env of
                  Inl e \<Rightarrow> log_msg Error ''error starting bluetooth driver:'' (Some e) w1
                | Inr d \<Rightarrow> w1\<lparr>bt := Some d\<rparr>);
          err = (case NewBluetoothDriver env of Inl e \<Rightarrow> Some e | Inr d \<Rightarrow> None);
          w3 = fst (activatePairing env w2)
      in case pairingSecret w3 of
           None \<Rightarrow> Returns w3 err
         | Some ps \<Rightarrow> andThen (RequestMe env w3 script) (\<lambda>w4 r. Returns w4 err))"

subsection \<open>Test doubles\<close>

text \<open>
  A small stand-in for the collaborators, used to run the model on concrete inputs.
  Its secret holds the symmetric key, absent until the phone has sent it, and the
  endpoint identifier. A ciphertext starting with 0 wraps a key; one starting with 1
  is a message encrypted under the key; anything else does not decrypt. The only
  message that parses is \<open>[7]\<close>, a profile response to request \<open>r1\<close> that also
  carries an endpoint identifier.
\<close>

record Secret =
  symmetricKey :: "bytes option"
  endpointARN :: "string option"

definition stub_response :: Response where
  "stub_response =
     \<lparr>ResponseRequestID = ''r1'', MeResponse = Some \<lparr>Me = ''alice''\<rparr>, SignResponse = None,
      ListResponse = None, SNSEndpointARN = Some ''arn:1''\<rparr>"

definition stub :: "Secret kr" where
  "stub =
     \<lparr>LoadPairing = (None, Some (ErrorsNew ''no pairing on disk'')),
      GeneratePairingSecretAndCreateQueues = Inr \<lparr>symmetricKey = None, endpointARN = None\<rparr>,
      SavePairing = (\<lambda>ps. None),
      NewRequest = Inr \<lparr>RequestID = ''r1'', MeRequest = None, SignRequest = None, ListRequest = None\<rparr>,
      DeriveUUID = (\<lambda>ps. Inr ''uuid''),
      EncryptMessage =
        (\<lambda>ps m. case symmetricKey ps of None \<Rightarrow> Inl ErrWaitingForKey | Some k \<Rightarrow> Inr (1 # m)),
      DecryptMessage =
        (\<lambda>ps c. case symmetricKey ps of
                   None \<Rightarrow> (None, Some ErrWaitingForKey)
                 | Some k \<Rightarrow>
                     (case c of
                        [] \<Rightarrow> (None, Some (ErrorsNew ''decrypt failed''))
                      | h # m \<Rightarrow> if h = 1 then (Some m, None)
                                 else (None, Some (ErrorsNew ''decrypt failed'')))),
      UnwrapKeyIfPresent =
        (\<lambda>ps c. case c of
                   [] \<Rightarrow> (ps, None, False, Some (ErrorsNew ''ciphertext empty''))
                 | h # k \<Rightarrow> if h = 0 then (ps\<lparr>symmetricKey := Some k\<rparr>, None, True, None)
                            else (ps, Some c, False, None)),
      UnwrapKeyIfPresent_nil = (\<lambda>c. None),
      SendMessage = (\<lambda>ps m. if m = [66] then Some (ErrorsNew ''network down'') else None),
      SetSNSEndpointARN = (\<lambda>ps a. ps\<lparr>endpointARN := Some a\<rparr>),
      NewBluetoothDriver = Inr 0,
      AddService = (\<lambda>d u. None),
      RemoveService = (\<lambda>d u. None),
      Write = (\<lambda>d c. None),
      Marshal = (\<lambda>r. Inr [2]),
      Unmarshal = (\<lambda>m. if m = [7] then Inr stub_response
                        else Inl (ErrorsNew ''invalid character''))\<rparr>"

text \<open>A secret still waiting for its key, and one whose key is there.\<close>

definition pending_secret :: Secret where
  "pending_secret = \<lparr>symmetricKey = None, endpointARN = None\<rparr>"

definition paired_secret :: Secret where
  "paired_secret = \<lparr>symmetricKey = Some [9], endpointARN = None\<rparr>"

text \<open>A client with a secret and a driver, waiting on channel 0 for the answer to \<open>r1\<close>.\<close>

definition waiting_world :: "Secret world" where
  "waiting_world =
     UnpairedEnclaveClient
       \<lparr>pairingSecret := Some paired_secret,
        requestCallbacksByRequestID := lru_Add (lru_New 128) ''r1'' 0,
        bt := Some 0, chans := [[]]\<rparr>"

subsection \<open>Observations\<close>

fun panicked :: "('w, 'a) outcome \<Rightarrow> bool" where
  "panicked (Panics w) = True"
| "panicked (Returns w a) = False"
| "panicked (Blocks w) = False"

section \<open>Properties\<close>

subsection \<open>The outgoing queue\<close>

text \<open>
  C6. A \<open>sendMessage\<close> that hits the waiting-for-key condition appends the message to
  the outgoing queue only when the queue holds fewer than 128 entries; otherwise the
  new message is dropped and the queue is left as it was, with nothing logged. The
  queue never grows past 128, and the call returns the \<open>SendQueued\<close> indication, not a
  \<open>SendError\<close>.
\<close>

theorem sendMessage_waiting_for_key_is_queued:
  assumes "pairingSecret w = Some ps"
    and "EncryptMessage env ps message = Inl ErrWaitingForKey"
    and "length (outgoingQueue w) \<le> 128"
  shows "sendMessage env w message =
           Returns (if length (outgoingQueue w) < 128
                    then w\<lparr>outgoingQueue := outgoingQueue w @ [message]\<rparr> else w)
             (Some (SendQueued ErrWaitingForKey))
         \<and> length (outgoingQueue (world_of (sendMessage env w message))) \<le> 128
         \<and> trace (world_of (sendMessage env w message)) = trace w"
  using assms by (simp add: sendMessage_def)

theorem sendMessage_waiting_for_key_is_queued_witness:
  "pairingSecret (UnpairedEnclaveClient\<lparr>pairingSecret := Some pending_secret\<rparr>) = Some pending_secret
   \<and> EncryptMessage stub pending_secret [1, 2, 3] = Inl ErrWaitingForKey
   \<and> sendMessage stub (UnpairedEnclaveClient\<lparr>pairingSecret := Some pending_secret\<rparr>) [1, 2, 3] =
       Returns (UnpairedEnclaveClient\<lparr>pairingSecret := Some pending_secret, outgoingQueue := [[1, 2, 3]]\<rparr>)
         (Some (SendQueued ErrWaitingForKey))
   \<and> length (replicate 128 [0 :: 8 word]) \<le> 128
   \<and> sendMessage stub
        (UnpairedEnclaveClient\<lparr>pairingSecret := Some pending_secret, outgoingQueue := replicate 128 [0]\<rparr>)
        [1, 2, 3] =
       Returns (UnpairedEnclaveClient\<lparr>pairingSecret := Some pending_secret, outgoingQueue := replicate 128 [0]\<rparr>)
         (Some (SendQueued ErrWaitingForKey))"
  using sendMessage_waiting_for_key_is_queued
      [of "UnpairedEnclaveClient\<lparr>pairingSecret := Some pending_secret\<rparr>" pending_secret stub "[1, 2, 3]"]
    sendMessage_waiting_for_key_is_queued
      [of "UnpairedEnclaveClient\<lparr>pairingSecret := Some pending_secret, outgoingQueue := replicate 128 [0]\<rparr>"
          pending_secret stub "[1, 2, 3]"]
  by (simp add: UnpairedEnclaveClient_def stub_def pending_secret_def)

subsection \<open>The correlator\<close>

lemma filter_absent_key: "map_of l k = None \<Longrightarrow> filter (\<lambda>e. fst e \<noteq> k) l = l"
  by (induction l) (auto split: if_splits)

lemma map_of_filter_key: "map_of (filter (\<lambda>e. fst e \<noteq> k) l) k = None"
  by (induction l) auto

lemma distinct_filter_keys: "distinct (map fst l) \<Longrightarrow> distinct (map fst (filter P l))"
  by (induction l) auto

lemma lru_Get_miss: "snd (lru_Get c k) = None \<longleftrightarrow> map_of (ll c) k = None"
  by (simp add: lru_Get_def split: option.splits)

lemma lru_Get_miss_same: "snd (lru_Get c k) = None \<Longrightarrow> fst (lru_Get c k) = c"
  by (simp add: lru_Get_def split: option.splits)

lemma lru_Remove_miss: "snd (lru_Get c k) = None \<Longrightarrow> lru_Remove c k = c"
  by (simp add: lru_Get_miss lru_Remove_def filter_absent_key)

lemma lru_Get_after_Remove: "snd (lru_Get (lru_Remove c k) k) = None"
  by (simp add: lru_Get_miss lru_Remove_def map_of_filter_key)

lemma lru_Remove_after_Get: "lru_Remove (fst (lru_Get c k)) k = lru_Remove c k"
  by (simp add: lru_Get_def lru_Remove_def split: option.splits)

lemma lru_inv_Remove: "lru_inv c \<Longrightarrow> lru_inv (lru_Remove c k)"
  by (simp add: lru_inv_def lru_Remove_def distinct_filter_keys)

lemma lru_inv_Get: "lru_inv c \<Longrightarrow> lru_inv (fst (lru_Get c k))"
  by (auto simp: lru_inv_def lru_Get_def distinct_filter_keys split: option.splits)

lemma lru_inv_Add: "lru_inv c \<Longrightarrow> lru_inv (lru_Add c k v)"
  by (auto simp: lru_inv_def lru_Add_def distinct_filter_keys map_butlast distinct_butlast
      map_of_eq_None_iff split: option.splits dest: in_set_butlastD)

lemma lru_Get_after_Add: "snd (lru_Get (lru_Add c k v) k) = Some v"
  by (cases "ll c") (auto simp: lru_Get_def lru_Add_def split: option.splits)

lemma handleMessage_miss:
  assumes "Unmarshal env message = Inr response"
    and "snd (lru_Get (requestCallbacksByRequestID w) (ResponseRequestID response)) = None"
  shows "\<exists>w'. handleMessage env w message = Returns w' None \<and> chans w' = chans w
           \<and> requestCallbacksByRequestID w' = requestCallbacksByRequestID w
           \<and> outgoingQueue w' = outgoingQueue w \<and> cachedMe w' = cachedMe w \<and> bt w' = bt w"
  using assms
  by (auto simp: handleMessage_def Let_def emit_def log_msg_def lru_Get_miss_same lru_Remove_miss
      split: option.splits)

lemma handleMessage_returns_removed:
  assumes "handleMessage env w message = Returns w1 e" and "Unmarshal env message = Inr response"
  shows "snd (lru_Get (requestCallbacksByRequestID w1) (ResponseRequestID response)) = None"
  using assms
  by (auto simp: handleMessage_def Let_def emit_def log_msg_def chan_send_def lru_Get_after_Remove
      split: option.splits if_splits)

lemma handleMessage_hit:
  assumes "Unmarshal env message = Inr response"
    and "snd (lru_Get (requestCallbacksByRequestID w) (ResponseRequestID response)) = Some c"
    and "c < length (chans w)" and "chans w ! c = []"
  shows "\<exists>w'. handleMessage env w message = Returns w' None
           \<and> chans w' = (chans w)[c := [(Some response, now w)]]"
  using assms
  by (auto simp: handleMessage_def Let_def emit_def log_msg_def chan_send_def chan_buf_def
      split: option.splits)

lemma handleMessage_lru_inv:
  "lru_inv (requestCallbacksByRequestID w)
   \<Longrightarrow> lru_inv (requestCallbacksByRequestID (world_of (handleMessage env w message)))"
  by (auto simp: handleMessage_def Let_def emit_def log_msg_def chan_send_def
      lru_inv_Remove lru_inv_Get split: option.splits sum.splits if_splits)

text \<open>
  C7. Delivering a parsed response whose identifier has no correlator entry sends
  nothing: the call returns, and the channels, the correlator, the outgoing queue, the
  cached profile and the driver are as before. A delivery that finds an entry puts the
  response on that entry's channel and on no other. After any delivery that returned,
  the identifier has no entry, so a second delivery of the same response reaches no
  channel. The correlator holds at most one entry, hence one channel, per identifier;
  registering and delivering keep it so.
\<close>

theorem handleMessage_delivery_at_most_once:
  assumes "Unmarshal env message = Inr response"
  shows "(snd (lru_Get (requestCallbacksByRequestID w) (ResponseRequestID response)) = None \<longrightarrow>
            (\<exists>w'. handleMessage env w message = Returns w' None \<and> chans w' = chans w
               \<and> requestCallbacksByRequestID w' = requestCallbacksByRequestID w
               \<and> outgoingQueue w' = outgoingQueue w \<and> cachedMe w' = cachedMe w \<and> bt w' = bt w))
       \<and> (\<forall>c. snd (lru_Get (requestCallbacksByRequestID w) (ResponseRequestID response)) = Some c
               \<and> c < length (chans w) \<and> chans w ! c = [] \<longrightarrow>
            (\<exists>w'. handleMessage env w message = Returns w' None
               \<and> chans w' = (chans w)[c := [(Some response, now w)]]))
       \<and> (\<forall>w1 e. handleMessage env w message = Returns w1 e \<longrightarrow>
            snd (lru_Get (requestCallbacksByRequestID w1) (ResponseRequestID response)) = None
            \<and> (\<exists>w2. handleMessage env w1 message = Returns w2 None \<and> chans w2 = chans w1
                  \<and> requestCallbacksByRequestID w2 = requestCallbacksByRequestID w1))
       \<and> (lru_inv (requestCallbacksByRequestID w) \<longrightarrow>
            lru_inv (requestCallbacksByRequestID (world_of (handleMessage env w message))))
       \<and> (lru_inv c0 \<longrightarrow> lru_inv (lru_Add c0 k v) \<and> snd (lru_Get (lru_Add c0 k v) k) = Some v)"
proof (intro conjI allI impI)
  assume "snd (lru_Get (requestCallbacksByRequestID w) (ResponseRequestID response)) = None"
  with assms show "\<exists>w'. handleMessage env w message = Returns w' None \<and> chans w' = chans w
      \<and> requestCallbacksByRequestID w' = requestCallbacksByRequestID w
      \<and> outgoingQueue w' = outgoingQueue w \<and> cachedMe w' = cachedMe w \<and> bt w' = bt w"
    by (rule handleMessage_miss)
next
  fix c
  assume "snd (lru_Get (requestCallbacksByRequestID w) (ResponseRequestID response)) = Some c
      \<and> c < length (chans w) \<and> chans w ! c = []"
  with assms show "\<exists>w'. handleMessage env w message = Returns w' None
      \<and> chans w' = (chans w)[c := [(Some response, now w)]]"
    by (simp add: handleMessage_hit)
next
  fix w1 e
  assume first: "handleMessage env w message = Returns w1 e"
  then show gone: "snd (lru_Get (requestCallbacksByRequestID w1) (ResponseRequestID response)) = None"
    using assms by (rule handleMessage_returns_removed)
  from handleMessage_miss [OF assms gone]
  show "\<exists>w2. handleMessage env w1 message = Returns w2 None \<and> chans w2 = chans w1
      \<and> requestCallbacksByRequestID w2 = requestCallbacksByRequestID w1"
    by blast
next
  assume "lru_inv (requestCallbacksByRequestID w)"
  then show "lru_inv (requestCallbacksByRequestID (world_of (handleMessage env w message)))"
    by (rule handleMessage_lru_inv)
next
  assume "lru_inv c0"
  then show "lru_inv (lru_Add c0 k v)" by (rule lru_inv_Add)
next
  show "snd (lru_Get (lru_Add c0 k v) k) = Some v" by (rule lru_Get_after_Add)
qed

theorem handleMessage_delivery_at_most_once_witness:
  "Unmarshal stub [7] = Inr stub_response
   \<and> lru_inv (requestCallbacksByRequestID waiting_world)
   \<and> snd (lru_Get (requestCallbacksByRequestID waiting_world) ''r1'') = Some 0
   \<and> chans (world_of (handleMessage stub waiting_world [7])) = [[(Some stub_response, 0)]]
   \<and> snd (lru_Get (requestCallbacksByRequestID (world_of (handleMessage stub waiting_world [7]))) ''r1'') = None
   \<and> chans (world_of (handleMessage stub (world_of (handleMessage stub waiting_world [7])) [7]))
       = [[(Some stub_response, 0)]]
   \<and> lru_inv (requestCallbacksByRequestID (world_of (handleMessage stub waiting_world [7])))
   \<and> chans (world_of (handleMessage stub (UnpairedEnclaveClient :: Secret world) [7])) = []"
  using handleMessage_delivery_at_most_once [of stub "[7]" stub_response waiting_world "lru_New 128" "''r1''" 0]
    handleMessage_delivery_at_most_once [of stub "[7]" stub_response UnpairedEnclaveClient "lru_New 128" "''r1''" 0]
  by (simp add: waiting_world_def UnpairedEnclaveClient_def stub_def stub_response_def
      paired_secret_def handleMessage_def lru_Get_def lru_Add_def lru_New_def lru_Remove_def
      lru_inv_def chan_send_def chan_buf_def emit_def log_msg_def Let_def)

text \<open>
  C8. A parsed response that carries an endpoint identifier update has the update
  applied to the active pairing secret and the secret handed to \<open>kr.SavePairing\<close>,
  whether or not the correlator has an entry for the response's identifier.
\<close>

theorem handleMessage_applies_endpoint_update:
  assumes "Unmarshal env message = Inr response"
    and "SNSEndpointARN response = Some arn"
    and "pairingSecret w = Some ps"
  shows "pairingSecret (world_of (handleMessage env w message)) = Some (SetSNSEndpointARN env ps arn)
         \<and> EvSavePairing (SetSNSEndpointARN env ps arn) \<in> set (trace (world_of (handleMessage env w message)))
         \<and> \<not> panicked (handleMessage env w message)"
  using assms
  by (auto simp: handleMessage_def Let_def emit_def log_msg_def chan_send_def
      split: option.splits)

theorem handleMessage_applies_endpoint_update_witness:
  "Unmarshal stub [7] = Inr stub_response \<and> SNSEndpointARN stub_response = Some ''arn:1''
   \<and> pairingSecret waiting_world = Some paired_secret
   \<and> pairingSecret (world_of (handleMessage stub waiting_world [7]))
       = Some \<lparr>symmetricKey = Some [9], endpointARN = Some ''arn:1''\<rparr>
   \<and> pairingSecret
       (world_of (handleMessage stub (UnpairedEnclaveClient\<lparr>pairingSecret := Some paired_secret\<rparr>) [7]))
       = Some \<lparr>symmetricKey = Some [9], endpointARN = Some ''arn:1''\<rparr>
   \<and> trace (world_of (handleMessage stub (UnpairedEnclaveClient\<lparr>pairingSecret := Some paired_secret\<rparr>) [7]))
       = [EvSavePairing \<lparr>symmetricKey = Some [9], endpointARN = Some ''arn:1''\<rparr>,
          Logged Info ''callback not found for request'' None]"
  using handleMessage_applies_endpoint_update [of stub "[7]" stub_response "''arn:1''" waiting_world paired_secret]
    handleMessage_applies_endpoint_update
      [of stub "[7]" stub_response "''arn:1''" "UnpairedEnclaveClient\<lparr>pairingSecret := Some paired_secret\<rparr>"
          paired_secret]
  by (simp add: waiting_world_def UnpairedEnclaveClient_def stub_def stub_response_def
      paired_secret_def handleMessage_def lru_Get_def lru_Add_def lru_New_def lru_Remove_def
      chan_send_def chan_buf_def emit_def log_msg_def Let_def)


end
